theory Spec2Isabelle
  imports Main "HOL-Library.Word"
begin

section \<open>VaccineRecordPrivacy: the contract's data\<close>

text \<open>
  The contract \<^verbatim>\<open>VaccineRecordPrivacy\<close> is embedded as functions on an explicit
  contract state. Solidity's \<^verbatim>\<open>address\<close> is a 160-bit word, \<^verbatim>\<open>uint256\<close>,
  \<^verbatim>\<open>uint32\<close> and \<^verbatim>\<open>uint8\<close> are words of their width. A \<^verbatim>\<open>mapping\<close> is a total
  function, every key unset so far holding the all-zero value of its type. The contract
  is compiled with Solidity 0.8.24, whose \<^verbatim>\<open>+\<close>, \<^verbatim>\<open>*\<close> and \<^verbatim>\<open>++\<close> revert (Panic) when
  the result leaves the type, so the arithmetic is written with that check.
\<close>

type_synonym address = "160 word"
type_synonym uint256 = "256 word"
type_synonym uint32 = "32 word"
type_synonym uint8 = "8 word"

text \<open>
  Modelled from the spec: the external encryption sink. The FHE library the contract
  imports (\<^verbatim>\<open>@fhevm/solidity/lib/FHE.sol\<close>) is no part of this repository. The spec
  describes it as \<^verbatim>\<open>encrypt(width, plainValue) -> CiphertextHandle\<close>, a handle the
  registry never inspects, with \<^verbatim>\<open>authorizeSelf(handle)\<close> and
  \<^verbatim>\<open>authorizeIdentity(handle, identity)\<close> granting rights over it. A handle is the
  unset handle of a fresh storage slot or the encryption of a value at a width; the
  sink's state is the list of the authorization calls it has received, oldest first.
\<close>

datatype handle = NoHandle | Enc8 uint8 | Enc32 uint32

type_synonym euint8 = handle
type_synonym euint32 = handle

definition asEuint8 :: "uint8 \<Rightarrow> euint8" where
  "asEuint8 v = Enc8 v"

definition asEuint32 :: "uint32 \<Rightarrow> euint32" where
  "asEuint32 v = Enc32 v"

datatype acl_call = AllowThis handle | Allow handle address

record VaccineRecord =
  encryptedPersonId :: euint32
  encryptedVaccineType :: euint8
  encryptedVaccineDate :: euint32
  encryptedDoseNumber :: euint8
  encryptedBatchNumber :: euint32
  recIsActive :: bool
  timestamp :: uint256
  authorizedDoctor :: address

record AccessPermission =
  canView :: bool
  canUpdate :: bool
  expiryTime :: uint256
  isActive :: bool

datatype event =
    VaccineRecorded uint256 address address
  | AccessGranted address address uint256
  | AccessRevoked address address uint256
  | DoctorAuthorized address
  | DoctorRevoked address
  | RecordUpdated uint256 address

text \<open>
  The storage of the contract, with the sink's call list \<open>aclCalls\<close> and the event log
  \<open>events\<close> (both oldest first) beside it. The field \<^verbatim>\<open>isActive\<close> of
  \<^verbatim>\<open>VaccineRecord\<close> is \<open>recIsActive\<close> here, \<^verbatim>\<open>isActive\<close> of
  \<^verbatim>\<open>AccessPermission\<close> keeps its name.
\<close>

record contract =
  healthAuthority :: address
  totalRecords :: uint256
  vaccineRecords :: "uint256 \<Rightarrow> VaccineRecord"
  accessPermissions :: "address \<Rightarrow> uint256 \<Rightarrow> AccessPermission"
  authorizedDoctors :: "address \<Rightarrow> bool"
  userRecords :: "address \<Rightarrow> uint256 list"
  aclCalls :: "acl_call list"
  events :: "event list"

text \<open>What a call sees of its transaction: \<^verbatim>\<open>msg.sender\<close> and \<^verbatim>\<open>block.timestamp\<close>.\<close>

record env =
  msg_sender :: address
  block_timestamp :: uint256

text \<open>
  A failed \<^verbatim>\<open>require\<close> reverts with its message; checked arithmetic that overflows
  reverts with a panic.
\<close>

datatype error = Revert string | Panic

definition checked_add :: "uint256 \<Rightarrow> uint256 \<Rightarrow> error + uint256" where
  "checked_add a b = (if unat a + unat b < 2 ^ 256 then Inr (a + b) else Inl Panic)"

definition checked_mul :: "uint256 \<Rightarrow> uint256 \<Rightarrow> error + uint256" where
  "checked_mul a b = (if unat a * unat b < 2 ^ 256 then Inr (a * b) else Inl Panic)"

text \<open>The time units \<^verbatim>\<open>1 days\<close> and \<^verbatim>\<open>365 days\<close>, in seconds.\<close>

definition one_days :: uint256 where
  "one_days = 86400"

definition days_365 :: uint256 where
  "days_365 = 31536000"

text \<open>The zero values of the two structs, held by every mapping slot not yet written.\<close>

definition zeroRecord :: VaccineRecord where
  "zeroRecord = \<lparr> encryptedPersonId = NoHandle, encryptedVaccineType = NoHandle,
     encryptedVaccineDate = NoHandle, encryptedDoseNumber = NoHandle,
     encryptedBatchNumber = NoHandle, recIsActive = False, timestamp = 0,
     authorizedDoctor = 0 \<rparr>"

definition zeroPermission :: AccessPermission where
  "zeroPermission = \<lparr> canView = False, canUpdate = False, expiryTime = 0, isActive = False \<rparr>"

section \<open>The contract's functions\<close>

text \<open>\<^verbatim>\<open>constructor\<close>: the deployer becomes the health authority, nothing is stored yet.\<close>

definition constructor :: "env \<Rightarrow> contract" where
  "constructor e = \<lparr> healthAuthority = msg_sender e, totalRecords = 0,
     vaccineRecords = (\<lambda>_. zeroRecord), accessPermissions = (\<lambda>_ _. zeroPermission),
     authorizedDoctors = (\<lambda>_. False), userRecords = (\<lambda>_. []),
     aclCalls = [], events = [] \<rparr>"

definition authorizeDoctor :: "env \<Rightarrow> address \<Rightarrow> contract \<Rightarrow> error + contract" where
  "authorizeDoctor e doctor s =
     (if msg_sender e \<noteq> healthAuthority s then Inl (Revert ''Not authorized health authority'')
      else Inr (s\<lparr> authorizedDoctors := (authorizedDoctors s)(doctor := True),
                   events := events s @ [DoctorAuthorized doctor] \<rparr>))"

definition revokeDoctor :: "env \<Rightarrow> address \<Rightarrow> contract \<Rightarrow> error + contract" where
  "revokeDoctor e doctor s =
     (if msg_sender e \<noteq> healthAuthority s then Inl (Revert ''Not authorized health authority'')
      else Inr (s\<lparr> authorizedDoctors := (authorizedDoctors s)(doctor := False),
                   events := events s @ [DoctorRevoked doctor] \<rparr>))"

text \<open>
  \<^verbatim>\<open>hasAccessPermission\<close> reads the stored permission and the current block time.
\<close>

definition hasAccessPermission :: "env \<Rightarrow> contract \<Rightarrow> address \<Rightarrow> uint256 \<Rightarrow> bool" where
  "hasAccessPermission e s user recordId =
     (let permission = accessPermissions s user recordId
      in isActive permission \<and> canView permission \<and> block_timestamp e \<le> expiryTime permission)"

text \<open>
  \<^verbatim>\<open>hasOwnershipOfRecord\<close>: the loop over the user's record list, returning at the
  first entry equal to the record id.
\<close>

fun ownershipLoop :: "uint256 list \<Rightarrow> uint256 \<Rightarrow> bool" where
  "ownershipLoop [] recordId = False"
| "ownershipLoop (r # records) recordId =
     (if r = recordId then True else ownershipLoop records recordId)"

definition hasOwnershipOfRecord :: "contract \<Rightarrow> address \<Rightarrow> uint256 \<Rightarrow> bool" where
  "hasOwnershipOfRecord s user recordId = ownershipLoop (userRecords s user) recordId"

text \<open>
  \<^verbatim>\<open>recordVaccination\<close>: the modifier \<^verbatim>\<open>onlyAuthorizedDoctor\<close> first, then the three
  \<^verbatim>\<open>require\<close>s in their order, the checked increment of the counter, the new record,
  the fifteen authorization calls, the push on the patient's list and the patient's
  permission, whose expiry is a checked sum.
\<close>

definition recordVaccination ::
  "env \<Rightarrow> address \<Rightarrow> uint32 \<Rightarrow> uint8 \<Rightarrow> uint32 \<Rightarrow> uint8 \<Rightarrow> uint32 \<Rightarrow> contract \<Rightarrow> error + contract" where
  "recordVaccination e patient personId vaccineType vaccineDate doseNumber batchNumber s =
     (if \<not> authorizedDoctors s (msg_sender e) then Inl (Revert ''Not an authorized doctor'')
      else if \<not> (patient \<noteq> 0) then Inl (Revert ''Invalid patient address'')
      else if \<not> (vaccineType > 0 \<and> vaccineType \<le> 10) then Inl (Revert ''Invalid vaccine type'')
      else if \<not> (doseNumber > 0 \<and> doseNumber \<le> 5) then Inl (Revert ''Invalid dose number'')
      else case checked_add (totalRecords s) 1 of
        Inl err \<Rightarrow> Inl err
      | Inr recordId \<Rightarrow>
         (let ePersonId = asEuint32 personId;
              eVaccineType = asEuint8 vaccineType;
              eVaccineDate = asEuint32 vaccineDate;
              eDoseNumber = asEuint8 doseNumber;
              eBatchNumber = asEuint32 batchNumber;
              handles = [ePersonId, eVaccineType, eVaccineDate, eDoseNumber, eBatchNumber];
              newRecord = \<lparr> encryptedPersonId = ePersonId,
                            encryptedVaccineType = eVaccineType,
                            encryptedVaccineDate = eVaccineDate,
                            encryptedDoseNumber = eDoseNumber,
                            encryptedBatchNumber = eBatchNumber,
                            recIsActive = True,
                            timestamp = block_timestamp e,
                            authorizedDoctor = msg_sender e \<rparr>
          in case checked_add (block_timestamp e) days_365 of
               Inl err \<Rightarrow> Inl err
             | Inr expiry \<Rightarrow>
                Inr (s\<lparr> totalRecords := recordId,
                        vaccineRecords := (vaccineRecords s)(recordId := newRecord),
                        aclCalls := aclCalls s @ map AllowThis handles
                                      @ map (\<lambda>h. Allow h patient) handles
                                      @ map (\<lambda>h. Allow h (msg_sender e)) handles,
                        userRecords := (userRecords s)(patient := userRecords s patient @ [recordId]),
                        accessPermissions := (accessPermissions s)(patient :=
                           (accessPermissions s patient)(recordId :=
                              \<lparr> canView = True, canUpdate = False,
                                expiryTime = expiry, isActive = True \<rparr>)),
                        events := events s @ [VaccineRecorded recordId patient (msg_sender e)] \<rparr>)))"

text \<open>
  \<^verbatim>\<open>grantAccess\<close>: three \<^verbatim>\<open>require\<close>s in their order, the expiry as a checked
  product and sum, the permission written over whatever the slot held, and the five
  authorization calls when \<^verbatim>\<open>canView\<close> is set.
\<close>

definition recordHandles :: "VaccineRecord \<Rightarrow> handle list" where
  "recordHandles r = [encryptedPersonId r, encryptedVaccineType r, encryptedVaccineDate r,
     encryptedDoseNumber r, encryptedBatchNumber r]"

definition grantAccess ::
  "env \<Rightarrow> address \<Rightarrow> uint256 \<Rightarrow> bool \<Rightarrow> bool \<Rightarrow> uint256 \<Rightarrow> contract \<Rightarrow> error + contract" where
  "grantAccess e accessor recordId cView cUpdate durationInDays s =
     (if \<not> recIsActive (vaccineRecords s recordId) then Inl (Revert ''Record not active'')
      else if \<not> hasOwnershipOfRecord s (msg_sender e) recordId then Inl (Revert ''Not record owner'')
      else if \<not> (accessor \<noteq> 0) then Inl (Revert ''Invalid accessor address'')
      else case checked_mul durationInDays one_days of
        Inl err \<Rightarrow> Inl err
      | Inr secs \<Rightarrow>
         (case checked_add (block_timestamp e) secs of
            Inl err \<Rightarrow> Inl err
          | Inr expiry \<Rightarrow>
             Inr (s\<lparr> accessPermissions := (accessPermissions s)(accessor :=
                        (accessPermissions s accessor)(recordId :=
                           \<lparr> canView = cView, canUpdate = cUpdate,
                             expiryTime = expiry, isActive = True \<rparr>)),
                     aclCalls := aclCalls s @
                        (if cView
                         then map (\<lambda>h. Allow h accessor) (recordHandles (vaccineRecords s recordId))
                         else []),
                     events := events s @ [AccessGranted (msg_sender e) accessor recordId] \<rparr>)))"

text \<open>\<^verbatim>\<open>revokeAccess\<close>: one \<^verbatim>\<open>require\<close>, then the flag of the one slot is cleared.\<close>

definition revokeAccess :: "env \<Rightarrow> address \<Rightarrow> uint256 \<Rightarrow> contract \<Rightarrow> error + contract" where
  "revokeAccess e accessor recordId s =
     (if \<not> hasOwnershipOfRecord s (msg_sender e) recordId then Inl (Revert ''Not record owner'')
      else Inr (s\<lparr> accessPermissions := (accessPermissions s)(accessor :=
                      (accessPermissions s accessor)(recordId :=
                         (accessPermissions s accessor recordId)\<lparr> isActive := False \<rparr>)),
                   events := events s @ [AccessRevoked (msg_sender e) accessor recordId] \<rparr>))"

text \<open>
  \<^verbatim>\<open>updateVaccineRecord\<close>: the modifier \<^verbatim>\<open>onlyRecordOwnerOrAuthorized\<close>, the two
  \<^verbatim>\<open>require\<close>s, then each field with a non-zero new value is encrypted again and the
  contract authorized on the new handle, one field after the other.
\<close>

definition onlyRecordOwnerOrAuthorized :: "env \<Rightarrow> contract \<Rightarrow> uint256 \<Rightarrow> bool" where
  "onlyRecordOwnerOrAuthorized e s recordId =
     (hasAccessPermission e s (msg_sender e) recordId \<or>
      authorizedDoctor (vaccineRecords s recordId) = msg_sender e)"

definition setVaccineType :: "uint256 \<Rightarrow> uint8 \<Rightarrow> contract \<Rightarrow> contract" where
  "setVaccineType recordId v s =
     (if v > 0
      then s\<lparr> vaccineRecords := (vaccineRecords s)(recordId :=
                  (vaccineRecords s recordId)\<lparr> encryptedVaccineType := asEuint8 v \<rparr>),
              aclCalls := aclCalls s @ [AllowThis (asEuint8 v)] \<rparr>
      else s)"

definition setVaccineDate :: "uint256 \<Rightarrow> uint32 \<Rightarrow> contract \<Rightarrow> contract" where
  "setVaccineDate recordId v s =
     (if v > 0
      then s\<lparr> vaccineRecords := (vaccineRecords s)(recordId :=
                  (vaccineRecords s recordId)\<lparr> encryptedVaccineDate := asEuint32 v \<rparr>),
              aclCalls := aclCalls s @ [AllowThis (asEuint32 v)] \<rparr>
      else s)"

definition setDoseNumber :: "uint256 \<Rightarrow> uint8 \<Rightarrow> contract \<Rightarrow> contract" where
  "setDoseNumber recordId v s =
     (if v > 0
      then s\<lparr> vaccineRecords := (vaccineRecords s)(recordId :=
                  (vaccineRecords s recordId)\<lparr> encryptedDoseNumber := asEuint8 v \<rparr>),
              aclCalls := aclCalls s @ [AllowThis (asEuint8 v)] \<rparr>
      else s)"

definition setBatchNumber :: "uint256 \<Rightarrow> uint32 \<Rightarrow> contract \<Rightarrow> contract" where
  "setBatchNumber recordId v s =
     (if v > 0
      then s\<lparr> vaccineRecords := (vaccineRecords s)(recordId :=
                  (vaccineRecords s recordId)\<lparr> encryptedBatchNumber := asEuint32 v \<rparr>),
              aclCalls := aclCalls s @ [AllowThis (asEuint32 v)] \<rparr>
      else s)"

definition updateVaccineRecord ::
  "env \<Rightarrow> uint256 \<Rightarrow> uint8 \<Rightarrow> uint32 \<Rightarrow> uint8 \<Rightarrow> uint32 \<Rightarrow> contract \<Rightarrow> error + contract" where
  "updateVaccineRecord e recordId newVaccineType newVaccineDate newDoseNumber newBatchNumber s =
     (if \<not> onlyRecordOwnerOrAuthorized e s recordId then Inl (Revert ''No access permission'')
      else if \<not> recIsActive (vaccineRecords s recordId) then Inl (Revert ''Record not active'')
      else if \<not> (canUpdate (accessPermissions s (msg_sender e) recordId) \<or>
                  authorizedDoctor (vaccineRecords s recordId) = msg_sender e)
           then Inl (Revert ''No update permission'')
      else let s1 = setVaccineType recordId newVaccineType s;
               s2 = setVaccineDate recordId newVaccineDate s1;
               s3 = setDoseNumber recordId newDoseNumber s2;
               s4 = setBatchNumber recordId newBatchNumber s3
           in Inr (s4\<lparr> events := events s4 @ [RecordUpdated recordId (msg_sender e)] \<rparr>))"

text \<open>\<^verbatim>\<open>deactivateRecord\<close>: the creator or the health authority clears the record's flag.\<close>

definition deactivateRecord :: "env \<Rightarrow> uint256 \<Rightarrow> contract \<Rightarrow> error + contract" where
  "deactivateRecord e recordId s =
     (if \<not> (authorizedDoctor (vaccineRecords s recordId) = msg_sender e \<or>
             msg_sender e = healthAuthority s)
      then Inl (Revert ''Not authorized'')
      else Inr (s\<lparr> vaccineRecords := (vaccineRecords s)(recordId :=
                      (vaccineRecords s recordId)\<lparr> recIsActive := False \<rparr>) \<rparr>))"

text \<open>
  A transaction that reverts leaves the storage, the sink and the log as they were: the
  caller sees the error and the state from before the call.
\<close>

definition transact :: "(contract \<Rightarrow> error + contract) \<Rightarrow> contract \<Rightarrow> error option \<times> contract" where
  "transact f s = (case f s of Inl err \<Rightarrow> (Some err, s) | Inr s' \<Rightarrow> (None, s'))"

text \<open>Whether the sink has been asked to authorize an identity on a handle.\<close>

definition sinkAuthorized :: "contract \<Rightarrow> handle \<Rightarrow> address \<Rightarrow> bool" where
  "sinkAuthorized s h a = (Allow h a \<in> set (aclCalls s))"

section \<open>A run of the contract\<close>

text \<open>
  The states of one run, used to evaluate the functions on concrete inputs: the health
  authority (address 1) deploys the contract and authorizes a doctor (address 2); the
  doctor records a vaccination for a patient (address 3), which gets record id 1; the
  patient then grants a third party (address 4) access to the record. Each state is what
  the transaction before it leaves behind.
\<close>

definition asAt :: "address \<Rightarrow> uint256 \<Rightarrow> env" where
  "asAt a t = \<lparr> msg_sender = a, block_timestamp = t \<rparr>"

definition demoDeployed :: contract where
  "demoDeployed = constructor (asAt 1 1699000000)"

definition demoAuthorized :: contract where
  "demoAuthorized = snd (transact (authorizeDoctor (asAt 1 1699000500) 2) demoDeployed)"

definition demoRecorded :: contract where
  "demoRecorded = snd (transact
     (recordVaccination (asAt 2 1700000000) 3 12345 1 1700000000 1 98765) demoAuthorized)"

text \<open>The patient grants address 4 view and update rights for 7 days.\<close>

definition demoGranted :: contract where
  "demoGranted = snd (transact (grantAccess (asAt 3 1700000100) 4 1 True True 7) demoRecorded)"

text \<open>Or, instead, a view grant of zero days.\<close>

definition demoZero :: contract where
  "demoZero = snd (transact (grantAccess (asAt 3 1700000100) 4 1 True False 0) demoRecorded)"

text \<open>After the 7-day grant, the patient revokes it.\<close>

definition demoRevoked :: contract where
  "demoRevoked = snd (transact (revokeAccess (asAt 3 1700000200) 4 1) demoGranted)"

text \<open>Or, instead, the doctor deactivates the record.\<close>

definition demoDeactivated :: contract where
  "demoDeactivated = snd (transact (deactivateRecord (asAt 2 1700000200) 1) demoGranted)"

text \<open>Or, instead, address 4 uses its 7-day grant to update the record.\<close>

definition demoUpdated :: contract where
  "demoUpdated = snd (transact
     (updateVaccineRecord (asAt 4 1700000200) 1 2 0 2 99999) demoGranted)"

text \<open>A grant of update rights without view rights, made instead of the 7-day grant.\<close>

definition demoUpdateOnly :: contract where
  "demoUpdateOnly = snd (transact
     (grantAccess (asAt 3 1700000100) 4 1 False True 7) demoRecorded)"

section \<open>Helper lemmas\<close>

subsection \<open>Checked arithmetic\<close>

lemma checked_add_Inr: "checked_add a b = Inr c \<Longrightarrow> c = a + b \<and> unat c = unat a + unat b"
  by (auto simp: checked_add_def unat_word_ariths split: if_splits)

lemma checked_mul_Inr: "checked_mul a b = Inr c \<Longrightarrow> c = a * b \<and> unat c = unat a * unat b"
  by (auto simp: checked_mul_def unat_word_ariths split: if_splits)

lemma unat_uint256_bound: "unat (t :: uint256) < 2 ^ 256"
  using unsigned_less [of t, where 'a = nat] by simp

lemma unat_one_days: "unat one_days = 86400"
  by (simp add: one_days_def)

lemma unat_days_365: "unat days_365 = 31536000"
  by (simp add: days_365_def)

lemma ownershipLoop_mem: "ownershipLoop records recordId \<longleftrightarrow> recordId \<in> set records"
  by (induction records) auto

subsection \<open>What a successful call leaves behind\<close>

lemma grantAccess_Inr:
  assumes "grantAccess e accessor recordId cView cUpdate D s = Inr s'"
  shows "recIsActive (vaccineRecords s recordId) \<and>
     hasOwnershipOfRecord s (msg_sender e) recordId \<and> accessor \<noteq> 0 \<and>
     unat (block_timestamp e + D * one_days) = unat (block_timestamp e) + unat D * 86400 \<and>
     s' = s\<lparr> accessPermissions := (accessPermissions s)(accessor :=
                        (accessPermissions s accessor)(recordId :=
                           \<lparr> canView = cView, canUpdate = cUpdate,
                             expiryTime = block_timestamp e + D * one_days, isActive = True \<rparr>)),
                     aclCalls := aclCalls s @
                        (if cView
                         then map (\<lambda>h. Allow h accessor) (recordHandles (vaccineRecords s recordId))
                         else []),
                     events := events s @ [AccessGranted (msg_sender e) accessor recordId] \<rparr>"
  using assms
  by (auto simp: grantAccess_def unat_one_days split: if_splits sum.splits
      dest!: checked_add_Inr checked_mul_Inr)

lemma recordVaccination_Inr:
  assumes "recordVaccination e patient personId vaccineType vaccineDate doseNumber batchNumber s = Inr s'"
  shows "authorizedDoctors s (msg_sender e) \<and> patient \<noteq> 0 \<and>
     unat (totalRecords s + 1) = unat (totalRecords s) + 1 \<and>
     unat (block_timestamp e + days_365) = unat (block_timestamp e) + 31536000 \<and>
     s' = s\<lparr> totalRecords := totalRecords s + 1,
             vaccineRecords := (vaccineRecords s)(totalRecords s + 1 :=
                \<lparr> encryptedPersonId = Enc32 personId,
                  encryptedVaccineType = Enc8 vaccineType,
                  encryptedVaccineDate = Enc32 vaccineDate,
                  encryptedDoseNumber = Enc8 doseNumber,
                  encryptedBatchNumber = Enc32 batchNumber,
                  recIsActive = True,
                  timestamp = block_timestamp e,
                  authorizedDoctor = msg_sender e \<rparr>),
             aclCalls := aclCalls s @
                map AllowThis [Enc32 personId, Enc8 vaccineType, Enc32 vaccineDate,
                               Enc8 doseNumber, Enc32 batchNumber]
                @ map (\<lambda>h. Allow h patient) [Enc32 personId, Enc8 vaccineType, Enc32 vaccineDate,
                               Enc8 doseNumber, Enc32 batchNumber]
                @ map (\<lambda>h. Allow h (msg_sender e)) [Enc32 personId, Enc8 vaccineType,
                               Enc32 vaccineDate, Enc8 doseNumber, Enc32 batchNumber],
             userRecords := (userRecords s)(patient := userRecords s patient @ [totalRecords s + 1]),
             accessPermissions := (accessPermissions s)(patient :=
                (accessPermissions s patient)(totalRecords s + 1 :=
                   \<lparr> canView = True, canUpdate = False,
                     expiryTime = block_timestamp e + days_365, isActive = True \<rparr>)),
             events := events s @ [VaccineRecorded (totalRecords s + 1) patient (msg_sender e)] \<rparr>"
proof -
  from assms obtain recordId expiry where
    g: "authorizedDoctors s (msg_sender e)" "patient \<noteq> 0" and
    r: "checked_add (totalRecords s) 1 = Inr recordId" and
    x: "checked_add (block_timestamp e) days_365 = Inr expiry"
    by (auto simp: recordVaccination_def Let_def split: if_splits sum.splits)
  from checked_add_Inr [OF r] have r': "recordId = totalRecords s + 1"
    "unat (totalRecords s + 1) = unat (totalRecords s) + 1" by auto
  from checked_add_Inr [OF x] have x': "expiry = block_timestamp e + days_365"
    "unat (block_timestamp e + days_365) = unat (block_timestamp e) + 31536000"
    by (auto simp: unat_days_365)
  from assms g r x have "s' = s\<lparr> totalRecords := totalRecords s + 1,
             vaccineRecords := (vaccineRecords s)(totalRecords s + 1 :=
                \<lparr> encryptedPersonId = Enc32 personId,
                  encryptedVaccineType = Enc8 vaccineType,
                  encryptedVaccineDate = Enc32 vaccineDate,
                  encryptedDoseNumber = Enc8 doseNumber,
                  encryptedBatchNumber = Enc32 batchNumber,
                  recIsActive = True,
                  timestamp = block_timestamp e,
                  authorizedDoctor = msg_sender e \<rparr>),
             aclCalls := aclCalls s @
                map AllowThis [Enc32 personId, Enc8 vaccineType, Enc32 vaccineDate,
                               Enc8 doseNumber, Enc32 batchNumber]
                @ map (\<lambda>h. Allow h patient) [Enc32 personId, Enc8 vaccineType, Enc32 vaccineDate,
                               Enc8 doseNumber, Enc32 batchNumber]
                @ map (\<lambda>h. Allow h (msg_sender e)) [Enc32 personId, Enc8 vaccineType,
                               Enc32 vaccineDate, Enc8 doseNumber, Enc32 batchNumber],
             userRecords := (userRecords s)(patient := userRecords s patient @ [totalRecords s + 1]),
             accessPermissions := (accessPermissions s)(patient :=
                (accessPermissions s patient)(totalRecords s + 1 :=
                   \<lparr> canView = True, canUpdate = False,
                     expiryTime = block_timestamp e + days_365, isActive = True \<rparr>)),
             events := events s @ [VaccineRecorded (totalRecords s + 1) patient (msg_sender e)] \<rparr>"
    by (simp add: recordVaccination_def Let_def r' x' asEuint8_def asEuint32_def split: if_splits)
  with g r' x' show ?thesis by simp
qed

lemma revokeAccess_Inr:
  assumes "revokeAccess e accessor recordId s = Inr s'"
  shows "hasOwnershipOfRecord s (msg_sender e) recordId \<and>
     s' = s\<lparr> accessPermissions := (accessPermissions s)(accessor :=
                      (accessPermissions s accessor)(recordId :=
                         (accessPermissions s accessor recordId)\<lparr> isActive := False \<rparr>)),
                   events := events s @ [AccessRevoked (msg_sender e) accessor recordId] \<rparr>"
  using assms by (auto simp: revokeAccess_def split: if_splits)

subsection \<open>The run, state by state\<close>

lemma demoAuthorized_eq: "demoAuthorized = \<lparr> healthAuthority = 1, totalRecords = 0,
     vaccineRecords = (\<lambda>_. zeroRecord), accessPermissions = (\<lambda>_ _. zeroPermission),
     authorizedDoctors = (\<lambda>_. False)(2 := True), userRecords = (\<lambda>_. []),
     aclCalls = [], events = [DoctorAuthorized 2] \<rparr>"
  by (simp add: demoAuthorized_def demoDeployed_def transact_def authorizeDoctor_def
      constructor_def asAt_def)

lemma demoRecorded_eq: "demoRecorded = \<lparr> healthAuthority = 1, totalRecords = 1,
     vaccineRecords = (\<lambda>_. zeroRecord)(1 := \<lparr> encryptedPersonId = Enc32 12345,
        encryptedVaccineType = Enc8 1, encryptedVaccineDate = Enc32 1700000000,
        encryptedDoseNumber = Enc8 1, encryptedBatchNumber = Enc32 98765,
        recIsActive = True, timestamp = 1700000000, authorizedDoctor = 2 \<rparr>),
     accessPermissions = (\<lambda>_ _. zeroPermission)(3 := (\<lambda>_. zeroPermission)(1 :=
        \<lparr> canView = True, canUpdate = False, expiryTime = 1731536000, isActive = True \<rparr>)),
     authorizedDoctors = (\<lambda>_. False)(2 := True),
     userRecords = (\<lambda>_. [])(3 := [1]),
     aclCalls = [AllowThis (Enc32 12345), AllowThis (Enc8 1), AllowThis (Enc32 1700000000),
        AllowThis (Enc8 1), AllowThis (Enc32 98765),
        Allow (Enc32 12345) 3, Allow (Enc8 1) 3, Allow (Enc32 1700000000) 3,
        Allow (Enc8 1) 3, Allow (Enc32 98765) 3,
        Allow (Enc32 12345) 2, Allow (Enc8 1) 2, Allow (Enc32 1700000000) 2,
        Allow (Enc8 1) 2, Allow (Enc32 98765) 2],
     events = [DoctorAuthorized 2, VaccineRecorded 1 3 2] \<rparr>"
  by (simp add: demoRecorded_def demoAuthorized_eq transact_def recordVaccination_def asAt_def
      checked_add_def days_365_def asEuint8_def asEuint32_def Let_def)

lemma demoRecorded_run:
  "recordVaccination (asAt 2 1700000000) 3 12345 1 1700000000 1 98765 demoAuthorized
     = Inr demoRecorded"
  by (simp add: demoRecorded_eq demoAuthorized_eq recordVaccination_def asAt_def
      checked_add_def days_365_def asEuint8_def asEuint32_def Let_def)

lemma demoGranted_run:
  "grantAccess (asAt 3 1700000100) 4 1 True True 7 demoRecorded = Inr demoGranted"
  by (simp add: demoGranted_def transact_def demoRecorded_eq grantAccess_def asAt_def
      checked_add_def checked_mul_def one_days_def hasOwnershipOfRecord_def)

lemma demoZero_run:
  "grantAccess (asAt 3 1700000100) 4 1 True False 0 demoRecorded = Inr demoZero"
  by (simp add: demoZero_def transact_def demoRecorded_eq grantAccess_def asAt_def
      checked_add_def checked_mul_def one_days_def hasOwnershipOfRecord_def)

lemma demoGranted_eq: "demoGranted = demoRecorded\<lparr>
     accessPermissions := (\<lambda>_ _. zeroPermission)
       (3 := (\<lambda>_. zeroPermission)(1 :=
          \<lparr> canView = True, canUpdate = False, expiryTime = 1731536000, isActive = True \<rparr>),
        4 := (\<lambda>_. zeroPermission)(1 :=
          \<lparr> canView = True, canUpdate = True, expiryTime = 1700604900, isActive = True \<rparr>)),
     aclCalls := aclCalls demoRecorded @
        [Allow (Enc32 12345) 4, Allow (Enc8 1) 4, Allow (Enc32 1700000000) 4,
         Allow (Enc8 1) 4, Allow (Enc32 98765) 4],
     events := [DoctorAuthorized 2, VaccineRecorded 1 3 2, AccessGranted 3 4 1] \<rparr>"
  by (simp add: demoGranted_def transact_def demoRecorded_eq grantAccess_def asAt_def
      checked_add_def checked_mul_def one_days_def hasOwnershipOfRecord_def recordHandles_def)

lemma demoZero_eq: "demoZero = demoRecorded\<lparr>
     accessPermissions := (\<lambda>_ _. zeroPermission)
       (3 := (\<lambda>_. zeroPermission)(1 :=
          \<lparr> canView = True, canUpdate = False, expiryTime = 1731536000, isActive = True \<rparr>),
        4 := (\<lambda>_. zeroPermission)(1 :=
          \<lparr> canView = True, canUpdate = False, expiryTime = 1700000100, isActive = True \<rparr>)),
     aclCalls := aclCalls demoRecorded @
        [Allow (Enc32 12345) 4, Allow (Enc8 1) 4, Allow (Enc32 1700000000) 4,
         Allow (Enc8 1) 4, Allow (Enc32 98765) 4],
     events := [DoctorAuthorized 2, VaccineRecorded 1 3 2, AccessGranted 3 4 1] \<rparr>"
  by (simp add: demoZero_def transact_def demoRecorded_eq grantAccess_def asAt_def
      checked_add_def checked_mul_def one_days_def hasOwnershipOfRecord_def recordHandles_def)

lemma demoRevoked_run: "revokeAccess (asAt 3 1700000200) 4 1 demoGranted = Inr demoRevoked"
  by (simp add: demoRevoked_def transact_def demoGranted_eq demoRecorded_eq revokeAccess_def
      asAt_def hasOwnershipOfRecord_def)

lemma demoDeactivated_eq: "demoDeactivated = demoGranted\<lparr>
     vaccineRecords := (\<lambda>_. zeroRecord)(1 := \<lparr> encryptedPersonId = Enc32 12345,
        encryptedVaccineType = Enc8 1, encryptedVaccineDate = Enc32 1700000000,
        encryptedDoseNumber = Enc8 1, encryptedBatchNumber = Enc32 98765,
        recIsActive = False, timestamp = 1700000000, authorizedDoctor = 2 \<rparr>) \<rparr>"
  by (simp add: demoDeactivated_def transact_def demoGranted_eq demoRecorded_eq
      deactivateRecord_def asAt_def)

lemma demoUpdated_run:
  "updateVaccineRecord (asAt 4 1700000200) 1 2 0 2 99999 demoGranted = Inr demoUpdated"
  by (simp add: demoUpdated_def transact_def demoGranted_eq demoRecorded_eq
      updateVaccineRecord_def onlyRecordOwnerOrAuthorized_def hasAccessPermission_def
      asAt_def Let_def)

lemma demoUpdateOnly_eq: "demoUpdateOnly = demoRecorded\<lparr>
     accessPermissions := (\<lambda>_ _. zeroPermission)
       (3 := (\<lambda>_. zeroPermission)(1 :=
          \<lparr> canView = True, canUpdate = False, expiryTime = 1731536000, isActive = True \<rparr>),
        4 := (\<lambda>_. zeroPermission)(1 :=
          \<lparr> canView = False, canUpdate = True, expiryTime = 1700604900, isActive = True \<rparr>)),
     events := [DoctorAuthorized 2, VaccineRecorded 1 3 2, AccessGranted 3 4 1] \<rparr>"
  by (simp add: demoUpdateOnly_def transact_def demoRecorded_eq grantAccess_def asAt_def
      checked_add_def checked_mul_def one_days_def hasOwnershipOfRecord_def)

section \<open>The claims\<close>

text \<open>
  C1. A grant made with \<^verbatim>\<open>canView = true\<close> and duration \<open>D\<close> days at time \<open>t\<close>
  stores the expiry \<open>t + D * 86400\<close> (as a number, with no wrap-around, since the sum
  is checked), and from then on \<^verbatim>\<open>hasAccessPermission\<close> for the grantee is true at
  exactly the times \<open>now \<le> t + D * 86400\<close>: true at the boundary and one second
  before it, false one second after it.
\<close>

theorem grantAccess_expiry:
  assumes "grantAccess e accessor recordId True cUpdate D s = Inr s'"
  shows "unat (expiryTime (accessPermissions s' accessor recordId)) =
           unat (block_timestamp e) + unat D * 86400 \<and>
         (\<forall>now. hasAccessPermission now s' accessor recordId \<longleftrightarrow>
            unat (block_timestamp now) \<le> unat (block_timestamp e) + unat D * 86400)"
proof -
  from grantAccess_Inr [OF assms] have
    ex: "unat (block_timestamp e + D * one_days) = unat (block_timestamp e) + unat D * 86400" and
    p: "accessPermissions s' accessor recordId =
           \<lparr> canView = True, canUpdate = cUpdate,
             expiryTime = block_timestamp e + D * one_days, isActive = True \<rparr>"
    by auto
  show ?thesis
    by (simp add: p ex [symmetric] hasAccessPermission_def word_le_nat_alt)
qed

theorem grantAccess_expiry_witness:
  "grantAccess (asAt 3 1700000100) 4 1 True True 7 demoRecorded = Inr demoGranted \<and>
   unat (expiryTime (accessPermissions demoGranted 4 1)) = 1700000100 + 7 * 86400 \<and>
   hasAccessPermission (asAt 4 1700000100) demoGranted 4 1 \<and>
   hasAccessPermission (asAt 4 (1700000100 + 7 * 86400 - 1)) demoGranted 4 1 \<and>
   hasAccessPermission (asAt 4 (1700000100 + 7 * 86400)) demoGranted 4 1 \<and>
   \<not> hasAccessPermission (asAt 4 (1700000100 + 7 * 86400 + 1)) demoGranted 4 1"
proof -
  note th = grantAccess_expiry [OF demoGranted_run]
  note at = th [THEN conjunct2, THEN spec]
  show ?thesis
    using th [THEN conjunct1] at [of "asAt 4 1700000100"]
      at [of "asAt 4 (1700000100 + 7 * 86400 - 1)"] at [of "asAt 4 (1700000100 + 7 * 86400)"]
      at [of "asAt 4 (1700000100 + 7 * 86400 + 1)"] demoGranted_run
    by (simp add: asAt_def)
qed

text \<open>
  C2. \<^verbatim>\<open>recordVaccination\<close> reverts, and so leaves the whole state (the counter
  \<open>totalRecords\<close>, the records, the patient's record list, the permission table, the
  sink) as it was, whenever the caller is no authorized doctor, the patient is the zero
  address, the vaccine type is outside 1..10 or the dose number is outside 1..5. The
  checks run in that order and the first to fail gives the message; an authorized
  doctor calling with vaccine type 0 for a real patient gets ``Invalid vaccine type''.
\<close>

theorem recordVaccination_rejects:
  assumes "\<not> authorizedDoctors s (msg_sender e) \<or> patient = 0 \<or>
           vaccineType < 1 \<or> 10 < vaccineType \<or> doseNumber < 1 \<or> 5 < doseNumber"
  shows "transact (recordVaccination e patient personId vaccineType vaccineDate doseNumber
            batchNumber) s =
         (Some (if \<not> authorizedDoctors s (msg_sender e) then Revert ''Not an authorized doctor''
                else if patient = 0 then Revert ''Invalid patient address''
                else if vaccineType < 1 \<or> 10 < vaccineType then Revert ''Invalid vaccine type''
                else Revert ''Invalid dose number''), s)"
proof -
  have z: "\<And>w :: uint8. (0 < w) = (\<not> w < 1)"
    by (simp add: word_less_1 word_neq_0_conv)
  show ?thesis
    using assms
    by (auto simp: transact_def recordVaccination_def z not_le)
qed

theorem recordVaccination_rejects_witness:
  "authorizedDoctors demoAuthorized 2 \<and>
   transact (recordVaccination (asAt 2 1700000000) 3 12345 0 1700000000 1 98765) demoAuthorized
     = (Some (Revert ''Invalid vaccine type''), demoAuthorized) \<and>
   totalRecords (snd (transact
     (recordVaccination (asAt 2 1700000000) 3 12345 0 1700000000 1 98765) demoAuthorized)) = 0"
  using recordVaccination_rejects [where s = demoAuthorized and e = "asAt 2 1700000000"
      and patient = 3 and vaccineType = 0 and personId = 12345 and vaccineDate = 1700000000
      and doseNumber = 1 and batchNumber = 98765]
  by (simp add: demoAuthorized_eq asAt_def)

text \<open>
  C3. A successful \<^verbatim>\<open>recordVaccination\<close> at time \<open>t\<close> for a patient takes the next id
  (the counter is checked, so the new id is the old count plus one as a number) and
  stores for the patient, under the new id, a permission that can view, cannot update,
  is active and expires at \<open>t + 365 * 86400\<close>; \<^verbatim>\<open>hasAccessPermission\<close> for the
  patient on the new record is true at exactly the times \<open>now \<le> t + 365 * 86400\<close>,
  so also at once.
\<close>

theorem recordVaccination_owner_grant:
  assumes "recordVaccination e patient personId vaccineType vaccineDate doseNumber batchNumber s
             = Inr s'"
  shows "unat (totalRecords s') = unat (totalRecords s) + 1 \<and>
         canView (accessPermissions s' patient (totalRecords s')) \<and>
         \<not> canUpdate (accessPermissions s' patient (totalRecords s')) \<and>
         isActive (accessPermissions s' patient (totalRecords s')) \<and>
         unat (expiryTime (accessPermissions s' patient (totalRecords s'))) =
           unat (block_timestamp e) + 365 * 86400 \<and>
         (\<forall>now. hasAccessPermission now s' patient (totalRecords s') \<longleftrightarrow>
            unat (block_timestamp now) \<le> unat (block_timestamp e) + 365 * 86400)"
proof -
  note r = recordVaccination_Inr [OF assms]
  from r have n: "totalRecords s' = totalRecords s + 1"
    and u: "unat (totalRecords s + 1) = unat (totalRecords s) + 1"
    and x: "unat (block_timestamp e + days_365) = unat (block_timestamp e) + 31536000"
    by auto
  from r have p: "accessPermissions s' patient (totalRecords s + 1) =
      \<lparr> canView = True, canUpdate = False,
        expiryTime = block_timestamp e + days_365, isActive = True \<rparr>"
    by auto
  show ?thesis
    by (simp add: n u p x hasAccessPermission_def word_le_nat_alt)
qed

theorem recordVaccination_owner_grant_witness:
  "recordVaccination (asAt 2 1700000000) 3 12345 1 1700000000 1 98765 demoAuthorized
     = Inr demoRecorded \<and>
   totalRecords demoAuthorized = 0 \<and> totalRecords demoRecorded = 1 \<and>
   canView (accessPermissions demoRecorded 3 1) \<and>
   \<not> canUpdate (accessPermissions demoRecorded 3 1) \<and>
   isActive (accessPermissions demoRecorded 3 1) \<and>
   unat (expiryTime (accessPermissions demoRecorded 3 1)) = 1700000000 + 365 * 86400 \<and>
   hasAccessPermission (asAt 3 1700000000) demoRecorded 3 1 \<and>
   hasAccessPermission (asAt 3 (1700000000 + 365 * 86400)) demoRecorded 3 1 \<and>
   \<not> hasAccessPermission (asAt 3 (1700000000 + 365 * 86400 + 1)) demoRecorded 3 1"
proof -
  note th = recordVaccination_owner_grant [OF demoRecorded_run]
  have n: "totalRecords demoAuthorized = 0" "totalRecords demoRecorded = 1"
    by (simp_all add: demoAuthorized_eq demoRecorded_eq)
  note at = th [unfolded n, THEN conjunct2, THEN conjunct2, THEN conjunct2, THEN conjunct2,
      THEN conjunct2, THEN spec]
  show ?thesis
    using th [unfolded n] at [of "asAt 3 1700000000"]
      at [of "asAt 3 (1700000000 + 365 * 86400)"]
      at [of "asAt 3 (1700000000 + 365 * 86400 + 1)"] demoRecorded_run n
    by (simp add: asAt_def)
qed

text \<open>
  C4, in the form that holds of the code.
  A grant of zero days made at time \<open>t\<close> by the owner of an active record
  to a non-zero address succeeds and stores the expiry \<open>t\<close> itself.
  \<^verbatim>\<open>hasAccessPermission\<close> compares with \<^verbatim>\<open><=\<close>, so for the grantee it is false at
  every time after \<open>t\<close>, and at \<open>t\<close> itself (the block of the grant) it is the
  \<^verbatim>\<open>canView\<close> flag: a zero-day view grant is still effective at \<open>t\<close>.
\<close>

theorem grantAccess_zero_duration:
  assumes "recIsActive (vaccineRecords s recordId)"
    and "recordId \<in> set (userRecords s (msg_sender e))"
    and "accessor \<noteq> 0"
  shows "\<exists>s'. grantAccess e accessor recordId cView cUpdate 0 s = Inr s' \<and>
           expiryTime (accessPermissions s' accessor recordId) = block_timestamp e \<and>
           (\<forall>now. hasAccessPermission now s' accessor recordId \<longleftrightarrow>
              cView \<and> block_timestamp now \<le> block_timestamp e)"
  using assms unat_uint256_bound [of "block_timestamp e"]
  by (simp add: grantAccess_def checked_mul_def checked_add_def hasOwnershipOfRecord_def
      ownershipLoop_mem hasAccessPermission_def)

theorem grantAccess_zero_duration_witness:
  "recIsActive (vaccineRecords demoRecorded 1) \<and>
   1 \<in> set (userRecords demoRecorded 3) \<and>
   grantAccess (asAt 3 1700000100) 4 1 True False 0 demoRecorded = Inr demoZero \<and>
   expiryTime (accessPermissions demoZero 4 1) = 1700000100 \<and>
   hasAccessPermission (asAt 4 1700000100) demoZero 4 1 \<and>
   \<not> hasAccessPermission (asAt 4 1700000101) demoZero 4 1"
proof -
  have a: "recIsActive (vaccineRecords demoRecorded 1)"
    and o: "1 \<in> set (userRecords demoRecorded (msg_sender (asAt 3 1700000100)))"
    and o': "1 \<in> set (userRecords demoRecorded 3)"
    by (simp_all add: demoRecorded_eq asAt_def)
  have z: "(4 :: address) \<noteq> 0" by simp
  from grantAccess_zero_duration [OF a o z, of True False] demoZero_run
  have th: "expiryTime (accessPermissions demoZero 4 1) = block_timestamp (asAt 3 1700000100) \<and>
     (\<forall>now. hasAccessPermission now demoZero 4 1 \<longleftrightarrow>
        True \<and> block_timestamp now \<le> block_timestamp (asAt 3 1700000100))"
    by auto
  note at = th [THEN conjunct2, THEN spec]
  show ?thesis
    using th [THEN conjunct1] at [of "asAt 4 1700000100"] at [of "asAt 4 1700000101"]
      demoZero_run a o'
    by (simp add: asAt_def)
qed

text \<open>
  The statement that a zero-day grant is ineffective already at \<open>t\<close> fails: the patient,
  owner of the active record 1, grants address 4 view rights for zero days at time
  1700000100, and at that same time address 4 has access.
\<close>

theorem zero_duration_counterexample:
  "recIsActive (vaccineRecords demoRecorded 1) \<and> hasOwnershipOfRecord demoRecorded 3 1 \<and>
   grantAccess (asAt 3 1700000100) 4 1 True False 0 demoRecorded = Inr demoZero \<and>
   hasAccessPermission (asAt 4 1700000100) demoZero 4 1"
  using demoZero_run
  by (simp add: demoZero_eq demoRecorded_eq hasOwnershipOfRecord_def hasAccessPermission_def
      asAt_def)

text \<open>
  C5, in the form that holds of the code.
  A successful \<^verbatim>\<open>recordVaccination\<close> writes exactly one slot of the
  permission table, the patient's slot for the new record, with view right, no update
  right and the expiry of 365 days; every other slot, the creator's too when creator and
  patient differ, keeps its content. The creator is stored as the record's
  \<^verbatim>\<open>authorizedDoctor\<close>, and the sink is asked to authorize the contract, the patient
  and the creator on each of the new record's handles.
\<close>

theorem recordVaccination_installs:
  assumes "recordVaccination e patient personId vaccineType vaccineDate doseNumber batchNumber s
             = Inr s'"
  shows "accessPermissions s' = (accessPermissions s)(patient :=
           (accessPermissions s patient)(totalRecords s' :=
              \<lparr> canView = True, canUpdate = False,
                expiryTime = block_timestamp e + days_365, isActive = True \<rparr>)) \<and>
         unat (block_timestamp e + days_365) = unat (block_timestamp e) + 365 * 86400 \<and>
         (msg_sender e \<noteq> patient \<longrightarrow>
            accessPermissions s' (msg_sender e) = accessPermissions s (msg_sender e)) \<and>
         authorizedDoctor (vaccineRecords s' (totalRecords s')) = msg_sender e \<and>
         (\<forall>h \<in> set (recordHandles (vaccineRecords s' (totalRecords s'))).
            AllowThis h \<in> set (aclCalls s') \<and> sinkAuthorized s' h patient \<and>
            sinkAuthorized s' h (msg_sender e))"
proof -
  note r = recordVaccination_Inr [OF assms]
  from r have n: "totalRecords s' = totalRecords s + 1" by auto
  from r have x: "unat (block_timestamp e + days_365) = unat (block_timestamp e) + 31536000"
    by auto
  from r have p: "accessPermissions s' = (accessPermissions s)(patient :=
           (accessPermissions s patient)(totalRecords s + 1 :=
              \<lparr> canView = True, canUpdate = False,
                expiryTime = block_timestamp e + days_365, isActive = True \<rparr>))"
    by auto
  from r have v: "vaccineRecords s' (totalRecords s + 1) =
      \<lparr> encryptedPersonId = Enc32 personId, encryptedVaccineType = Enc8 vaccineType,
        encryptedVaccineDate = Enc32 vaccineDate, encryptedDoseNumber = Enc8 doseNumber,
        encryptedBatchNumber = Enc32 batchNumber, recIsActive = True,
        timestamp = block_timestamp e, authorizedDoctor = msg_sender e \<rparr>"
    by auto
  from r have a: "aclCalls s' = aclCalls s @
      map AllowThis [Enc32 personId, Enc8 vaccineType, Enc32 vaccineDate,
                     Enc8 doseNumber, Enc32 batchNumber]
      @ map (\<lambda>h. Allow h patient) [Enc32 personId, Enc8 vaccineType, Enc32 vaccineDate,
                     Enc8 doseNumber, Enc32 batchNumber]
      @ map (\<lambda>h. Allow h (msg_sender e)) [Enc32 personId, Enc8 vaccineType,
                     Enc32 vaccineDate, Enc8 doseNumber, Enc32 batchNumber]"
    by auto
  have h: "\<forall>h \<in> set (recordHandles (vaccineRecords s' (totalRecords s'))).
            AllowThis h \<in> set (aclCalls s') \<and> sinkAuthorized s' h patient \<and>
            sinkAuthorized s' h (msg_sender e)"
    unfolding n v a sinkAuthorized_def recordHandles_def by simp
  have f: "msg_sender e \<noteq> patient \<longrightarrow>
            accessPermissions s' (msg_sender e) = accessPermissions s (msg_sender e)"
    by (simp add: p)
  have d: "authorizedDoctor (vaccineRecords s' (totalRecords s')) = msg_sender e"
    by (simp add: n v)
  from p n x h f d show ?thesis by simp
qed

theorem recordVaccination_installs_witness:
  "recordVaccination (asAt 2 1700000000) 3 12345 1 1700000000 1 98765 demoAuthorized
     = Inr demoRecorded \<and>
   accessPermissions demoRecorded = (accessPermissions demoAuthorized)(3 :=
      (accessPermissions demoAuthorized 3)(1 :=
         \<lparr> canView = True, canUpdate = False, expiryTime = 1731536000, isActive = True \<rparr>)) \<and>
   accessPermissions demoRecorded 2 = accessPermissions demoAuthorized 2 \<and>
   authorizedDoctor (vaccineRecords demoRecorded 1) = 2 \<and>
   AllowThis (Enc32 12345) \<in> set (aclCalls demoRecorded) \<and>
   sinkAuthorized demoRecorded (Enc32 12345) 3 \<and>
   sinkAuthorized demoRecorded (Enc32 12345) 2"
proof -
  note th = recordVaccination_installs [OF demoRecorded_run]
  have n: "totalRecords demoRecorded = 1"
    by (simp add: demoRecorded_eq)
  have m: "Enc32 12345 \<in> set (recordHandles (vaccineRecords demoRecorded 1))"
    by (simp add: demoRecorded_eq recordHandles_def)
  note hs = th [unfolded n, THEN conjunct2, THEN conjunct2, THEN conjunct2, THEN conjunct2,
      THEN bspec, OF m]
  show ?thesis
    using th [unfolded n] hs demoRecorded_run
    by (simp add: asAt_def days_365_def)
qed

text \<open>
  The statement that creator and owner both get a full-access row fails: after the
  doctor (address 2) has recorded the vaccination of the patient (address 3), the
  doctor's slot for record 1 is still the zero permission, and the patient's row has no
  update right.
\<close>

theorem creator_grant_counterexample:
  "recordVaccination (asAt 2 1700000000) 3 12345 1 1700000000 1 98765 demoAuthorized
     = Inr demoRecorded \<and>
   accessPermissions demoRecorded 2 1 = zeroPermission \<and>
   \<not> isActive (accessPermissions demoRecorded 2 1) \<and>
   \<not> canUpdate (accessPermissions demoRecorded 3 1)"
  using demoRecorded_run
  by (simp add: demoRecorded_eq zeroPermission_def)

text \<open>
  C6, in the form that holds of the code.
  A caller whose record list does not hold the record id cannot change
  grants, whatever grants the caller holds and whether or not the caller created the
  record: \<^verbatim>\<open>revokeAccess\<close> reverts with ``Not record owner'' on every record id, and
  \<^verbatim>\<open>grantAccess\<close> reverts with ``Not record owner'' when the record is active and
  with ``Record not active'' when it is not (that check comes first). In each case the
  state is left as it was.
\<close>

theorem non_owner_rejected:
  assumes "recordId \<notin> set (userRecords s (msg_sender e))"
  shows "transact (revokeAccess e accessor recordId) s = (Some (Revert ''Not record owner''), s) \<and>
         transact (grantAccess e accessor recordId cView cUpdate D) s =
           (Some (Revert (if recIsActive (vaccineRecords s recordId)
                          then ''Not record owner'' else ''Record not active'')), s)"
  using assms
  by (simp add: transact_def revokeAccess_def grantAccess_def hasOwnershipOfRecord_def
      ownershipLoop_mem)

theorem non_owner_rejected_witness:
  "authorizedDoctor (vaccineRecords demoGranted 1) = 2 \<and>
   transact (revokeAccess (asAt 2 1700000300) 5 1) demoGranted
     = (Some (Revert ''Not record owner''), demoGranted) \<and>
   transact (grantAccess (asAt 2 1700000300) 5 1 True True 7) demoGranted
     = (Some (Revert ''Not record owner''), demoGranted) \<and>
   hasAccessPermission (asAt 4 1700000300) demoGranted 4 1 \<and>
   canUpdate (accessPermissions demoGranted 4 1) \<and>
   transact (revokeAccess (asAt 4 1700000300) 5 1) demoGranted
     = (Some (Revert ''Not record owner''), demoGranted) \<and>
   transact (grantAccess (asAt 4 1700000300) 5 1 True True 7) demoGranted
     = (Some (Revert ''Not record owner''), demoGranted)"
proof -
  have d: "1 \<notin> set (userRecords demoGranted (msg_sender (asAt 2 1700000300)))"
    by (simp add: demoGranted_eq demoRecorded_eq asAt_def)
  have g: "1 \<notin> set (userRecords demoGranted (msg_sender (asAt 4 1700000300)))"
    by (simp add: demoGranted_eq demoRecorded_eq asAt_def)
  have a: "recIsActive (vaccineRecords demoGranted 1)"
    "authorizedDoctor (vaccineRecords demoGranted 1) = 2"
    "hasAccessPermission (asAt 4 1700000300) demoGranted 4 1"
    "canUpdate (accessPermissions demoGranted 4 1)"
    by (simp_all add: demoGranted_eq demoRecorded_eq hasAccessPermission_def asAt_def)
  show ?thesis
    using non_owner_rejected [OF d, of 5 True True 7]
      non_owner_rejected [OF g, of 5 True True 7] a
    by simp
qed

text \<open>
  The statement that the error is the not-authorized one for every record fails on a
  deactivated record: address 4, not the owner of record 1, calls \<^verbatim>\<open>grantAccess\<close>
  after the doctor has deactivated the record, and the revert message is
  ``Record not active''.
\<close>

theorem non_owner_grant_counterexample:
  "1 \<notin> set (userRecords demoDeactivated 4) \<and>
   \<not> hasOwnershipOfRecord demoDeactivated 4 1 \<and>
   transact (grantAccess (asAt 4 1700000300) 5 1 True True 7) demoDeactivated
     = (Some (Revert ''Record not active''), demoDeactivated) \<and>
   Revert ''Record not active'' \<noteq> Revert ''Not record owner''"
  by (simp add: demoDeactivated_eq demoGranted_eq demoRecorded_eq hasOwnershipOfRecord_def
      transact_def grantAccess_def asAt_def)

text \<open>
  C7. \<^verbatim>\<open>revokeAccess\<close> called by a caller whose record list holds the record id
  always succeeds, whatever the grantee's slot holds (nothing, a live grant, a revoked
  one), and in the state it leaves \<^verbatim>\<open>hasAccessPermission\<close> for the grantee on the
  record is false at every time, the time of the call included.
\<close>

theorem owner_revoke_succeeds:
  assumes "recordId \<in> set (userRecords s (msg_sender e))"
  shows "\<exists>s'. revokeAccess e accessor recordId s = Inr s' \<and>
           (\<forall>now. \<not> hasAccessPermission now s' accessor recordId)"
  using assms
  by (simp add: revokeAccess_def hasAccessPermission_def hasOwnershipOfRecord_def
      ownershipLoop_mem)

theorem owner_revoke_succeeds_witness:
  "hasOwnershipOfRecord demoGranted 3 1 \<and>
   accessPermissions demoGranted 5 1 = zeroPermission \<and>
   (\<exists>s'. revokeAccess (asAt 3 1700000200) 5 1 demoGranted = Inr s' \<and>
      (\<forall>now. \<not> hasAccessPermission now s' 5 1)) \<and>
   hasAccessPermission (asAt 4 1700000200) demoGranted 4 1 \<and>
   revokeAccess (asAt 3 1700000200) 4 1 demoGranted = Inr demoRevoked \<and>
   \<not> hasAccessPermission (asAt 4 1700000200) demoRevoked 4 1 \<and>
   (\<exists>s'. revokeAccess (asAt 3 1700000300) 4 1 demoRevoked = Inr s' \<and>
      (\<forall>now. \<not> hasAccessPermission now s' 4 1))"
proof -
  have o: "1 \<in> set (userRecords demoGranted (msg_sender (asAt 3 1700000200)))"
    by (simp add: demoGranted_eq demoRecorded_eq asAt_def)
  have w: "hasOwnershipOfRecord demoGranted 3 1"
    by (simp add: demoGranted_eq demoRecorded_eq hasOwnershipOfRecord_def)
  have u: "userRecords demoRevoked = userRecords demoGranted"
    by (subst revokeAccess_Inr [OF demoRevoked_run, THEN conjunct2]) simp
  have o': "1 \<in> set (userRecords demoRevoked (msg_sender (asAt 3 1700000300)))"
    using o by (simp add: u asAt_def)
  have z: "accessPermissions demoGranted 5 1 = zeroPermission"
    "hasAccessPermission (asAt 4 1700000200) demoGranted 4 1"
    by (simp_all add: demoGranted_eq hasAccessPermission_def asAt_def)
  from owner_revoke_succeeds [OF o, of 4] demoRevoked_run
  have r: "\<not> hasAccessPermission (asAt 4 1700000200) demoRevoked 4 1"
    by auto
  show ?thesis
    using owner_revoke_succeeds [OF o, of 5] owner_revoke_succeeds [OF o', of 4] w z r
      demoRevoked_run
    by (simp add: asAt_def)
qed

text \<open>
  C8. On an active record, the modifier \<^verbatim>\<open>onlyRecordOwnerOrAuthorized\<close> and both
  \<^verbatim>\<open>require\<close>s of \<^verbatim>\<open>updateVaccineRecord\<close> pass for the stored
  \<^verbatim>\<open>authorizedDoctor\<close>, so the call succeeds; nothing is asked of the permission
  table, which may hold no grant for the creator at all.
\<close>

theorem creator_can_update:
  assumes "recIsActive (vaccineRecords s recordId)"
    and "authorizedDoctor (vaccineRecords s recordId) = msg_sender e"
  shows "onlyRecordOwnerOrAuthorized e s recordId \<and>
         (\<exists>s'. updateVaccineRecord e recordId newVaccineType newVaccineDate newDoseNumber
                  newBatchNumber s = Inr s')"
  using assms by (simp add: updateVaccineRecord_def onlyRecordOwnerOrAuthorized_def Let_def)

theorem creator_can_update_witness:
  "recIsActive (vaccineRecords demoRecorded 1) \<and>
   authorizedDoctor (vaccineRecords demoRecorded 1) = 2 \<and>
   accessPermissions demoRecorded 2 1 = zeroPermission \<and>
   \<not> hasAccessPermission (asAt 2 1700000050) demoRecorded 2 1 \<and>
   (\<exists>s'. updateVaccineRecord (asAt 2 1700000050) 1 2 0 2 99999 demoRecorded = Inr s')"
proof -
  have a: "recIsActive (vaccineRecords demoRecorded 1)"
    and d: "authorizedDoctor (vaccineRecords demoRecorded 1) = msg_sender (asAt 2 1700000050)"
    and z: "accessPermissions demoRecorded 2 1 = zeroPermission"
    by (simp_all add: demoRecorded_eq asAt_def)
  have n: "\<not> hasAccessPermission (asAt 2 1700000050) demoRecorded 2 1"
    by (simp add: hasAccessPermission_def z zeroPermission_def)
  show ?thesis
    using creator_can_update [OF a d, of 2 0 2 99999] a d z n
    by (simp add: asAt_def)
qed

text \<open>
  C9. A successful \<^verbatim>\<open>revokeAccess\<close> clears the \<^verbatim>\<open>isActive\<close> flag of the one slot
  (grantee, record id) and appends its event; every other slot of the permission table,
  every record, the counter, the record lists, the doctors, the health authority and the
  sink's call list stay as they were. The sink therefore authorizes after the call
  exactly what it authorized before: when the revoked grant had been made with
  \<^verbatim>\<open>canView = true\<close>, the grantee is still authorized on each handle of the record.
\<close>

theorem revokeAccess_frame:
  assumes "revokeAccess e accessor recordId s = Inr s'"
  shows "accessPermissions s' accessor recordId =
           (accessPermissions s accessor recordId)\<lparr> isActive := False \<rparr> \<and>
         (\<forall>user r. (user, r) \<noteq> (accessor, recordId) \<longrightarrow>
            accessPermissions s' user r = accessPermissions s user r) \<and>
         vaccineRecords s' = vaccineRecords s \<and>
         aclCalls s' = aclCalls s \<and>
         (\<forall>h a. sinkAuthorized s' h a = sinkAuthorized s h a) \<and>
         totalRecords s' = totalRecords s \<and> userRecords s' = userRecords s \<and>
         authorizedDoctors s' = authorizedDoctors s \<and> healthAuthority s' = healthAuthority s \<and>
         events s' = events s @ [AccessRevoked (msg_sender e) accessor recordId] \<and>
         (\<forall>e0 s0 cUpdate D. grantAccess e0 accessor recordId True cUpdate D s0 = Inr s \<longrightarrow>
            (\<forall>h \<in> set (recordHandles (vaccineRecords s' recordId)).
               sinkAuthorized s' h accessor))"
proof -
  note r = revokeAccess_Inr [OF assms, THEN conjunct2]
  have g: "\<forall>e0 s0 cUpdate D. grantAccess e0 accessor recordId True cUpdate D s0 = Inr s \<longrightarrow>
            (\<forall>h \<in> set (recordHandles (vaccineRecords s' recordId)).
               sinkAuthorized s' h accessor)"
  proof (intro allI impI ballI)
    fix e0 s0 cUpdate D h
    assume ga: "grantAccess e0 accessor recordId True cUpdate D s0 = Inr s"
      and h: "h \<in> set (recordHandles (vaccineRecords s' recordId))"
    from grantAccess_Inr [OF ga] have
      v: "vaccineRecords s = vaccineRecords s0" and
      c: "aclCalls s = aclCalls s0 @
            map (\<lambda>h. Allow h accessor) (recordHandles (vaccineRecords s0 recordId))"
      by auto
    from r have "vaccineRecords s' = vaccineRecords s" "aclCalls s' = aclCalls s" by auto
    with h v c show "sinkAuthorized s' h accessor"
      by (auto simp: sinkAuthorized_def)
  qed
  from r have "accessPermissions s' accessor recordId =
           (accessPermissions s accessor recordId)\<lparr> isActive := False \<rparr>" by simp
  moreover from r have "\<forall>user r. (user, r) \<noteq> (accessor, recordId) \<longrightarrow>
            accessPermissions s' user r = accessPermissions s user r" by auto
  moreover from r have "vaccineRecords s' = vaccineRecords s" "aclCalls s' = aclCalls s"
    "totalRecords s' = totalRecords s" "userRecords s' = userRecords s"
    "authorizedDoctors s' = authorizedDoctors s" "healthAuthority s' = healthAuthority s"
    "events s' = events s @ [AccessRevoked (msg_sender e) accessor recordId]"
    by auto
  moreover from r have "\<forall>h a. sinkAuthorized s' h a = sinkAuthorized s h a"
    by (simp add: sinkAuthorized_def)
  ultimately show ?thesis using g by blast
qed

theorem revokeAccess_frame_witness:
  "grantAccess (asAt 3 1700000100) 4 1 True True 7 demoRecorded = Inr demoGranted \<and>
   revokeAccess (asAt 3 1700000200) 4 1 demoGranted = Inr demoRevoked \<and>
   accessPermissions demoRevoked 4 1 =
     \<lparr> canView = True, canUpdate = True, expiryTime = 1700604900, isActive = False \<rparr> \<and>
   accessPermissions demoRevoked 3 1 = accessPermissions demoGranted 3 1 \<and>
   vaccineRecords demoRevoked = vaccineRecords demoGranted \<and>
   aclCalls demoRevoked = aclCalls demoGranted \<and>
   \<not> hasAccessPermission (asAt 4 1700000200) demoRevoked 4 1 \<and>
   encryptedPersonId (vaccineRecords demoRevoked 1) = Enc32 12345 \<and>
   sinkAuthorized demoRevoked (Enc32 12345) 4"
proof -
  note th = revokeAccess_frame [OF demoRevoked_run]
  have p: "accessPermissions demoRevoked 4 1 =
     \<lparr> canView = True, canUpdate = True, expiryTime = 1700604900, isActive = False \<rparr>"
    using th [THEN conjunct1] by (simp add: demoGranted_eq)
  have q: "accessPermissions demoRevoked 3 1 = accessPermissions demoGranted 3 1"
    using th [THEN conjunct2, THEN conjunct1, THEN spec, THEN spec, of 3 1] by simp
  have v: "vaccineRecords demoRevoked = vaccineRecords demoGranted"
    "aclCalls demoRevoked = aclCalls demoGranted"
    using th by simp_all
  have n: "\<not> hasAccessPermission (asAt 4 1700000200) demoRevoked 4 1"
    by (simp add: hasAccessPermission_def p)
  have i: "encryptedPersonId (vaccineRecords demoRevoked 1) = Enc32 12345"
    by (simp add: v demoGranted_eq demoRecorded_eq)
  have m: "Enc32 12345 \<in> set (recordHandles (vaccineRecords demoRevoked 1))"
    by (simp add: v demoGranted_eq demoRecorded_eq recordHandles_def)
  from th have "\<forall>e0 s0 cUpdate D. grantAccess e0 4 1 True cUpdate D s0 = Inr demoGranted \<longrightarrow>
            (\<forall>h \<in> set (recordHandles (vaccineRecords demoRevoked 1)).
               sinkAuthorized demoRevoked h 4)"
    by blast
  with demoGranted_run m have a: "sinkAuthorized demoRevoked (Enc32 12345) 4"
    by blast
  show ?thesis
    using demoGranted_run demoRevoked_run p q v n i a by simp
qed

text \<open>
  C10. For a caller other than the record's stored \<^verbatim>\<open>authorizedDoctor\<close>,
  \<^verbatim>\<open>updateVaccineRecord\<close> succeeds exactly when the record is active and the caller's
  stored permission is active, can view, has not expired (\<open>now \<le> expiryTime\<close>) and can
  update, all at once. A grant with the update right but without the view right
  therefore never lets its holder update.
\<close>

theorem update_needs_full_grant:
  assumes "authorizedDoctor (vaccineRecords s recordId) \<noteq> msg_sender e"
  shows "(\<exists>s'. updateVaccineRecord e recordId newVaccineType newVaccineDate newDoseNumber
                  newBatchNumber s = Inr s') \<longleftrightarrow>
         recIsActive (vaccineRecords s recordId) \<and>
         isActive (accessPermissions s (msg_sender e) recordId) \<and>
         canView (accessPermissions s (msg_sender e) recordId) \<and>
         block_timestamp e \<le> expiryTime (accessPermissions s (msg_sender e) recordId) \<and>
         canUpdate (accessPermissions s (msg_sender e) recordId)"
  using assms
  by (auto simp: updateVaccineRecord_def onlyRecordOwnerOrAuthorized_def
      hasAccessPermission_def Let_def split: if_splits)

theorem update_needs_full_grant_witness:
  "authorizedDoctor (vaccineRecords demoGranted 1) = 2 \<and>
   updateVaccineRecord (asAt 4 1700000200) 1 2 0 2 99999 demoGranted = Inr demoUpdated \<and>
   recIsActive (vaccineRecords demoGranted 1) \<and>
   isActive (accessPermissions demoGranted 4 1) \<and>
   canView (accessPermissions demoGranted 4 1) \<and>
   (1700000200 :: uint256) \<le> expiryTime (accessPermissions demoGranted 4 1) \<and>
   canUpdate (accessPermissions demoGranted 4 1) \<and>
   canUpdate (accessPermissions demoUpdateOnly 4 1) \<and>
   \<not> canView (accessPermissions demoUpdateOnly 4 1) \<and>
   (\<nexists>s'. updateVaccineRecord (asAt 4 1700000200) 1 2 0 2 99999 demoUpdateOnly = Inr s')"
proof -
  have d: "authorizedDoctor (vaccineRecords demoGranted 1) \<noteq> msg_sender (asAt 4 1700000200)"
    "authorizedDoctor (vaccineRecords demoGranted 1) = 2"
    by (simp_all add: demoGranted_eq demoRecorded_eq asAt_def)
  have d': "authorizedDoctor (vaccineRecords demoUpdateOnly 1) \<noteq> msg_sender (asAt 4 1700000200)"
    by (simp add: demoUpdateOnly_eq demoRecorded_eq asAt_def)
  have v: "canUpdate (accessPermissions demoUpdateOnly 4 1)"
    "\<not> canView (accessPermissions demoUpdateOnly 4 1)"
    by (simp_all add: demoUpdateOnly_eq)
  from update_needs_full_grant [OF d(1), of 2 0 2 99999] demoUpdated_run
  have g: "recIsActive (vaccineRecords demoGranted 1) \<and>
   isActive (accessPermissions demoGranted 4 1) \<and>
   canView (accessPermissions demoGranted 4 1) \<and>
   (1700000200 :: uint256) \<le> expiryTime (accessPermissions demoGranted 4 1) \<and>
   canUpdate (accessPermissions demoGranted 4 1)"
    by (simp add: asAt_def)
  from update_needs_full_grant [OF d', of 2 0 2 99999] v
  have n: "\<nexists>s'. updateVaccineRecord (asAt 4 1700000200) 1 2 0 2 99999 demoUpdateOnly = Inr s'"
    by (simp add: asAt_def)
  from d(2) demoUpdated_run g v n show ?thesis by simp
qed

end
